theory Spec2Isabelle
  imports Main "HOL-Library.Word"
begin

section \<open>Data model of package pipe\<close>

text \<open>
  A shallow embedding of \<^verbatim>\<open>pipe.go\<close>. The operating system, the Go runtime and the
  libraries \<^verbatim>\<open>os/exec\<close> and \<^verbatim>\<open>creack/pty\<close> are the environment: the state they keep
  (open descriptors, bytes accepted by a descriptor, kill and resize requests, launched
  goroutines) is the record \<open>world\<close>, and what they answer to a call is a parameter of
  the operation that makes the call. The mutex \<^verbatim>\<open>mu\<close> makes every method one atomic
  step; it has no field in the model.
\<close>

type_synonym fd = nat
type_synonym pid = nat
type_synonym bytes = string

text \<open>
  An \<^verbatim>\<open>OutputHandler\<close> is a Go function value. The model names a callback by a number;
  the nil handler is \<open>None\<close>.
\<close>

type_synonym handler = nat
type_synonym OutputHandler = "handler option"

text \<open>Error values of the environment, and the errors \<^verbatim>\<open>pipe.go\<close> builds itself.\<close>

datatype oserr =
    ErrClosed            \<comment> \<open>use of a file that is already closed\<close>
  | OsError string       \<comment> \<open>any other error, with its message\<close>

datatype error =
    TransportError string oserr   \<comment> \<open>\<^verbatim>\<open>fmt.Errorf("<what>: %w", err)\<close> of the two Start methods\<close>
  | NoInputAvailable              \<comment> \<open>\<^verbatim>\<open>fmt.Errorf("no input pipe available")\<close>\<close>
  | NoPTYSession                  \<comment> \<open>\<^verbatim>\<open>fmt.Errorf("no PTY session active")\<close>\<close>
  | Underlying oserr              \<comment> \<open>an error of the environment returned as it is\<close>

text \<open>The state of the context created by \<^verbatim>\<open>context.WithCancel\<close>.\<close>

datatype ctx_state = Active | Canceled

text \<open>\<^verbatim>\<open>exec.Cmd\<close>: the exported fields \<^verbatim>\<open>pipe.go\<close> sets or reads.\<close>

record Cmd =
  Path :: string
  Args :: "string list"
  Env :: "string list"
  Process :: "pid option"

record ProcessManager =
  cmd :: Cmd
  pty :: "fd option"
  ctx :: ctx_state
  stdinPipe :: "fd option"
  onOutput :: OutputHandler
  onError :: OutputHandler
  running :: bool

record Config =
  Command :: string
  cfgArgs :: "string list"
  cfgEnv :: "string list"
  OnOutput :: OutputHandler
  OnError :: OutputHandler

text \<open>The goroutines a Start method launches, with the arguments evaluated at the \<^verbatim>\<open>go\<close> statement.\<close>

datatype goroutine =
    ReadOutput                        \<comment> \<open>\<^verbatim>\<open>go p.readOutput()\<close>\<close>
  | ReadFromReader fd OutputHandler   \<comment> \<open>\<^verbatim>\<open>go p.readFromReader(r, handler)\<close>\<close>

text \<open>
  The state of the environment: the descriptors open in this process; the pipe ends
  \<^verbatim>\<open>os/exec\<close> remembers for the command (\<^verbatim>\<open>childIOFiles\<close>, closed once the child
  has them, and \<^verbatim>\<open>parentIOPipes\<close>, closed when the start fails or the wait ends); the
  bytes each descriptor accepted; the kill requests sent; the calls of \<^verbatim>\<open>pty.Setsize\<close>;
  the goroutines launched.
\<close>

record world =
  open_files :: "fd set"
  childIOFiles :: "fd list"
  parentIOPipes :: "fd list"
  written :: "(fd \<times> bytes) list"
  kills :: "pid list"
  resizes :: "(fd \<times> 16 word \<times> 16 word) list"
  goroutines :: "goroutine list"

section \<open>Special terminal key sequences\<close>

definition KeyEnter :: string where
  "KeyEnter = [CHR 0x0D]"

definition KeyArrowUp :: string where
  "KeyArrowUp = [CHR 0x1B, CHR ''['', CHR ''A'']"

definition KeyArrowDown :: string where
  "KeyArrowDown = [CHR 0x1B, CHR ''['', CHR ''B'']"

definition KeyArrowLeft :: string where
  "KeyArrowLeft = [CHR 0x1B, CHR ''['', CHR ''D'']"

definition KeyArrowRight :: string where
  "KeyArrowRight = [CHR 0x1B, CHR ''['', CHR ''C'']"

definition KeyTab :: string where
  "KeyTab = [CHR 0x09]"

definition KeyEscape :: string where
  "KeyEscape = [CHR 0x1B]"

definition KeyCtrlC :: string where
  "KeyCtrlC = [CHR 0x03]"

section \<open>Construction\<close>

text \<open>
  \<^verbatim>\<open>exec.CommandContext(ctx, name, arg...)\<close> fills the command and its arguments and
  nothing else; \<open>environ\<close> is what \<^verbatim>\<open>os.Environ()\<close> returns.
\<close>

definition CommandContext :: "string \<Rightarrow> string list \<Rightarrow> Cmd" where
  "CommandContext name arg =
     \<lparr>Path = name, Args = name # arg, Env = [], Process = None\<rparr>"

definition New :: "string list \<Rightarrow> string \<Rightarrow> string list \<Rightarrow> ProcessManager" where
  "New environ command args =
     \<lparr>cmd = (CommandContext command args)\<lparr>Env := environ\<rparr>,
      pty = None, ctx = Active, stdinPipe = None,
      onOutput = None, onError = None, running = False\<rparr>"

definition NewWithConfig :: "string list \<Rightarrow> Config \<Rightarrow> ProcessManager" where
  "NewWithConfig environ cfg =
     (let c = CommandContext (Command cfg) (cfgArgs cfg);
          c' = (if length (cfgEnv cfg) > 0
                then c\<lparr>Env := environ @ cfgEnv cfg\<rparr>
                else c\<lparr>Env := environ\<rparr>)
      in \<lparr>cmd = c', pty = None, ctx = Active, stdinPipe = None,
          onOutput = OnOutput cfg, onError = OnError cfg, running = False\<rparr>)"

section \<open>Handler registration\<close>

definition SetOutputHandler :: "OutputHandler \<Rightarrow> ProcessManager \<Rightarrow> ProcessManager" where
  "SetOutputHandler h p = p\<lparr>onOutput := h\<rparr>"

definition SetErrorHandler :: "OutputHandler \<Rightarrow> ProcessManager \<Rightarrow> ProcessManager" where
  "SetErrorHandler h p = p\<lparr>onError := h\<rparr>"

section \<open>The environment: files, \<^verbatim>\<open>os/exec\<close>, \<^verbatim>\<open>creack/pty\<close>\<close>

text \<open>
  \<^verbatim>\<open>Close\<close> of a file: the first call closes the descriptor, a later one fails with
  the closed-file error and changes nothing.
\<close>

definition file_Close :: "fd \<Rightarrow> world \<Rightarrow> world \<times> oserr option" where
  "file_Close f w =
     (if f \<in> open_files w then (w\<lparr>open_files := open_files w - {f}\<rparr>, None)
      else (w, Some ErrClosed))"

text \<open>
  \<^verbatim>\<open>Write\<close> of a file. On a closed file it writes nothing and fails; on an open one the
  environment answers with the count of bytes it accepted and an error or none.
\<close>

definition file_Write ::
  "nat \<times> oserr option \<Rightarrow> fd \<Rightarrow> bytes \<Rightarrow> world \<Rightarrow> world \<times> nat \<times> oserr option" where
  "file_Write ans f data w =
     (if f \<in> open_files w
      then (let n = min (fst ans) (length data)
            in (w\<lparr>written := written w @ [(f, take n data)]\<rparr>, n, snd ans))
      else (w, 0, Some ErrClosed))"

definition closeDescriptors :: "fd list \<Rightarrow> world \<Rightarrow> world" where
  "closeDescriptors fs w = w\<lparr>open_files := open_files w - set fs\<rparr>"

text \<open>
  \<^verbatim>\<open>cmd.StdinPipe()\<close>, \<^verbatim>\<open>cmd.StdoutPipe()\<close>, \<^verbatim>\<open>cmd.StderrPipe()\<close>: the environment
  answers with an error, or with the two ends of a new pipe (the child's end first).
  Both ends are then open and remembered; the caller gets the parent's end.
\<close>

definition exec_pipe :: "oserr + fd \<times> fd \<Rightarrow> world \<Rightarrow> world \<times> (oserr + fd)" where
  "exec_pipe ans w =
     (case ans of
        Inl e \<Rightarrow> (w, Inl e)
      | Inr (child_end, parent_end) \<Rightarrow>
          (w\<lparr>open_files := insert child_end (insert parent_end (open_files w)),
             childIOFiles := childIOFiles w @ [child_end],
             parentIOPipes := parentIOPipes w @ [parent_end]\<rparr>,
           Inr parent_end))"

definition StdinPipe :: "oserr + fd \<times> fd \<Rightarrow> world \<Rightarrow> world \<times> (oserr + fd)" where
  "StdinPipe = exec_pipe"

definition StdoutPipe :: "oserr + fd \<times> fd \<Rightarrow> world \<Rightarrow> world \<times> (oserr + fd)" where
  "StdoutPipe = exec_pipe"

definition StderrPipe :: "oserr + fd \<times> fd \<Rightarrow> world \<Rightarrow> world \<times> (oserr + fd)" where
  "StderrPipe = exec_pipe"

text \<open>
  \<^verbatim>\<open>cmd.Start()\<close>: the environment answers with an error or with the new process. The
  child's pipe ends are closed in either case, the parent's ends when the start failed.
\<close>

definition cmd_Start :: "oserr + pid \<Rightarrow> Cmd \<Rightarrow> world \<Rightarrow> Cmd \<times> world \<times> oserr option" where
  "cmd_Start ans c w =
     (let w1 = (closeDescriptors (childIOFiles w) w)\<lparr>childIOFiles := []\<rparr>
      in case ans of
           Inl e \<Rightarrow> (c, (closeDescriptors (parentIOPipes w1) w1)\<lparr>parentIOPipes := []\<rparr>, Some e)
         | Inr n \<Rightarrow> (c\<lparr>Process := Some n\<rparr>, w1, None))"

text \<open>
  \<^verbatim>\<open>cmd.Wait()\<close>: an error when the command was never started; otherwise, once the
  child has exited, the parent's pipe ends are closed and the environment's answer (the
  exit error or none) is returned.
\<close>

definition cmd_Wait :: "oserr option \<Rightarrow> Cmd \<Rightarrow> world \<Rightarrow> world \<times> oserr option" where
  "cmd_Wait ans c w =
     (case Process c of
        None \<Rightarrow> (w, Some (OsError ''exec: not started''))
      | Some n \<Rightarrow> ((closeDescriptors (parentIOPipes w) w)\<lparr>parentIOPipes := []\<rparr>, ans))"

text \<open>
  \<^verbatim>\<open>pty.Start(cmd)\<close>: opens a pseudo-terminal pair (the environment answers with an
  error or the master file), starts the command on the slave side and closes the slave;
  when the start fails the master is closed too and no file is returned.
\<close>

definition pty_Start ::
  "(oserr + fd) \<times> (oserr + pid) \<Rightarrow> Cmd \<Rightarrow> world \<Rightarrow> Cmd \<times> world \<times> fd option \<times> oserr option" where
  "pty_Start ans c w =
     (case fst ans of
        Inl e \<Rightarrow> (c, w, None, Some e)
      | Inr master \<Rightarrow>
          (case cmd_Start (snd ans) c w of
             (c1, w1, Some e) \<Rightarrow> (c1, w1, None, Some e)
           | (c1, w1, None) \<Rightarrow>
               (c1, w1\<lparr>open_files := insert master (open_files w1)\<rparr>, Some master, None)))"

text \<open>
  \<^verbatim>\<open>pty.Setsize(f, &Winsize{Rows, Cols})\<close>: the call is recorded; on an open file the
  environment answers, on a closed one it fails.
\<close>

definition pty_Setsize ::
  "oserr option \<Rightarrow> fd \<Rightarrow> 16 word \<Rightarrow> 16 word \<Rightarrow> world \<Rightarrow> world \<times> oserr option" where
  "pty_Setsize ans f rows cols w =
     (w\<lparr>resizes := resizes w @ [(f, rows, cols)]\<rparr>,
      if f \<in> open_files w then ans else Some ErrClosed)"

section \<open>Starting\<close>

definition StartWithPTY ::
  "(oserr + fd) \<times> (oserr + pid) \<Rightarrow> ProcessManager \<Rightarrow> world
     \<Rightarrow> ProcessManager \<times> world \<times> error option" where
  "StartWithPTY ans p w =
     (case pty_Start ans (cmd p) w of
        (c, w1, f, err) \<Rightarrow>
          (let p1 = p\<lparr>cmd := c, pty := f\<rparr>
           in case err of
                Some e \<Rightarrow> (p1, w1, Some (TransportError ''start PTY failed'' e))
              | None \<Rightarrow>
                  (p1\<lparr>running := True\<rparr>,
                   w1\<lparr>goroutines := goroutines w1 @ [ReadOutput]\<rparr>,
                   None)))"

text \<open>The answers of the environment to the four calls of \<^verbatim>\<open>StartWithPipes\<close>.\<close>

record pipes_env =
  stdin_ans :: "oserr + fd \<times> fd"
  stdout_ans :: "oserr + fd \<times> fd"
  stderr_ans :: "oserr + fd \<times> fd"
  start_ans :: "oserr + pid"

definition StartWithPipes ::
  "pipes_env \<Rightarrow> ProcessManager \<Rightarrow> world \<Rightarrow> ProcessManager \<times> world \<times> error option" where
  "StartWithPipes env p w =
     (case StdinPipe (stdin_ans env) w of
        (w1, Inl e) \<Rightarrow> (p, w1, Some (TransportError ''create stdin pipe'' e))
      | (w1, Inr stdin) \<Rightarrow>
          (let p1 = p\<lparr>stdinPipe := Some stdin\<rparr>
           in case StdoutPipe (stdout_ans env) w1 of
                (w2, Inl e) \<Rightarrow> (p1, w2, Some (TransportError ''create stdout pipe'' e))
              | (w2, Inr stdout) \<Rightarrow>
                  (case StderrPipe (stderr_ans env) w2 of
                     (w3, Inl e) \<Rightarrow> (p1, w3, Some (TransportError ''create stderr pipe'' e))
                   | (w3, Inr stderr) \<Rightarrow>
                       (case cmd_Start (start_ans env) (cmd p1) w3 of
                          (c, w4, Some e) \<Rightarrow>
                            (p1\<lparr>cmd := c\<rparr>, w4, Some (TransportError ''start command'' e))
                        | (c, w4, None) \<Rightarrow>
                            (let p2 = p1\<lparr>cmd := c, running := True\<rparr>
                             in (p2,
                                 w4\<lparr>goroutines := goroutines w4 @
                                      [ReadFromReader stdout (onOutput p2),
                                       ReadFromReader stderr (onError p2)]\<rparr>,
                                 None))))))"

section \<open>Writing, status, shutdown\<close>

definition Write ::
  "nat \<times> oserr option \<Rightarrow> bytes \<Rightarrow> ProcessManager \<Rightarrow> world \<Rightarrow> world \<times> nat \<times> error option" where
  "Write ans data p w =
     (case pty p of
        Some f \<Rightarrow> (case file_Write ans f data w of (w', n, err) \<Rightarrow> (w', n, map_option Underlying err))
      | None \<Rightarrow>
          (case stdinPipe p of
             Some f \<Rightarrow>
               (case file_Write ans f data w of (w', n, err) \<Rightarrow> (w', n, map_option Underlying err))
           | None \<Rightarrow> (w, 0, Some NoInputAvailable)))"

definition WriteString ::
  "nat \<times> oserr option \<Rightarrow> string \<Rightarrow> ProcessManager \<Rightarrow> world \<Rightarrow> world \<times> error option" where
  "WriteString ans s p w = (case Write ans s p w of (w', n, err) \<Rightarrow> (w', err))"

text \<open>\<open>sprintf\<close> is \<^verbatim>\<open>fmt.Sprintf\<close>.\<close>

definition Writef ::
  "(string \<Rightarrow> 'a list \<Rightarrow> string) \<Rightarrow> nat \<times> oserr option \<Rightarrow> string \<Rightarrow> 'a list
     \<Rightarrow> ProcessManager \<Rightarrow> world \<Rightarrow> world \<times> error option" where
  "Writef sprintf ans format args p w =
     (case Write ans (sprintf format args) p w of (w', n, err) \<Rightarrow> (w', err))"

definition Writeln ::
  "nat \<times> oserr option \<Rightarrow> string \<Rightarrow> ProcessManager \<Rightarrow> world \<Rightarrow> world \<times> error option" where
  "Writeln ans s p w = WriteString ans (s @ [CHR 0x0A]) p w"

definition IsRunning :: "ProcessManager \<Rightarrow> bool" where
  "IsRunning p = running p"

text \<open>
  \<^verbatim>\<open>Stop\<close>; \<open>kill_ans\<close> is what \<^verbatim>\<open>Process.Kill()\<close> answers. The results of the two
  \<^verbatim>\<open>Close\<close> calls are dropped, as in the source.
\<close>

definition Stop ::
  "oserr option \<Rightarrow> ProcessManager \<Rightarrow> world \<Rightarrow> ProcessManager \<times> world \<times> error option" where
  "Stop kill_ans p w =
     (let p1 = p\<lparr>ctx := Canceled\<rparr>;
          p2 = p1\<lparr>running := False\<rparr>;
          w1 = (case pty p2 of Some f \<Rightarrow> fst (file_Close f w) | None \<Rightarrow> w);
          w2 = (case stdinPipe p2 of Some f \<Rightarrow> fst (file_Close f w1) | None \<Rightarrow> w1)
      in case Process (cmd p2) of
           Some n \<Rightarrow> (p2, w2\<lparr>kills := kills w2 @ [n]\<rparr>, map_option Underlying kill_ans)
         | None \<Rightarrow> (p2, w2, None))"

text \<open>
  \<^verbatim>\<open>Wait\<close>; \<open>exit_ans\<close> is \<open>None\<close> while the child has not exited (the call does not
  return), and \<open>Some r\<close> once it has, \<open>r\<close> being the result of \<^verbatim>\<open>cmd.Wait()\<close>.
\<close>

definition Wait ::
  "oserr option option \<Rightarrow> ProcessManager \<Rightarrow> world
     \<Rightarrow> (ProcessManager \<times> world \<times> error option) option" where
  "Wait exit_ans p w =
     (case exit_ans of
        None \<Rightarrow> None
      | Some r \<Rightarrow>
          (case cmd_Wait r (cmd p) w of (w', err) \<Rightarrow> Some (p, w', map_option Underlying err)))"

definition Pid :: "ProcessManager \<Rightarrow> int" where
  "Pid p = (case Process (cmd p) of Some n \<Rightarrow> int n | None \<Rightarrow> - 1)"

definition Session :: "ProcessManager \<Rightarrow> fd option" where
  "Session p = pty p"

definition SetWindowSize ::
  "oserr option \<Rightarrow> 16 word \<Rightarrow> 16 word \<Rightarrow> ProcessManager \<Rightarrow> world \<Rightarrow> world \<times> error option" where
  "SetWindowSize ans rows cols p w =
     (case pty p of
        None \<Rightarrow> (w, Some NoPTYSession)
      | Some f \<Rightarrow>
          (case pty_Setsize ans f rows cols w of (w', err) \<Rightarrow> (w', map_option Underlying err)))"

section \<open>Drain loops\<close>

text \<open>
  What a \<^verbatim>\<open>Read\<close> can return as its error: \<^verbatim>\<open>io.EOF\<close> itself; an error for which
  \<^verbatim>\<open>errors.Is(err, syscall.EIO)\<close> holds; any other error. The string is the text
  \<^verbatim>\<open>%v\<close> prints.
\<close>

datatype rerr =
    EOF
  | EIO string
  | ReadErr string

fun Error_text :: "rerr \<Rightarrow> string" where
  "Error_text EOF = ''EOF''"
| "Error_text (EIO m) = m"
| "Error_text (ReadErr m) = m"

fun is_EIO :: "rerr \<Rightarrow> bool" where
  "is_EIO (EIO m) = True"
| "is_EIO e = False"

text \<open>
  A drain loop runs beside the caller's thread. Its future is a list of events: \<open>Rd d err\<close>,
  the stream has the bytes \<open>d\<close> ready and then the error \<open>err\<close> (or none); \<open>Call c\<close>,
  the caller's thread runs a handler registration, under the lock, before the loop goes on.
\<close>

datatype call = CallSetOutputHandler OutputHandler | CallSetErrorHandler OutputHandler

fun apply_call :: "call \<Rightarrow> ProcessManager \<Rightarrow> ProcessManager" where
  "apply_call (CallSetOutputHandler h) p = SetOutputHandler h p"
| "apply_call (CallSetErrorHandler h) p = SetErrorHandler h p"

datatype ev = Rd bytes "rerr option" | Call call

text \<open>
  Byte slices live in a store: an address is an index into the list of the arrays
  allocated so far. A handler invocation is recorded with the handler called, the address
  of the slice it was given and the bytes that slice held at the call.
\<close>

type_synonym addr = nat
type_synonym heap = "bytes list"
type_synonym invocation = "handler \<times> addr \<times> bytes"

definition callee :: "invocation \<Rightarrow> handler" where
  "callee iv = fst iv"

definition slice_of :: "invocation \<Rightarrow> addr" where
  "slice_of iv = fst (snd iv)"

definition content :: "invocation \<Rightarrow> bytes" where
  "content iv = snd (snd iv)"

text \<open>How a run of a loop over a finite future ends: the loop has left, or it waits in \<^verbatim>\<open>Read\<close>.\<close>

datatype status = Terminated | Blocked

definition READ_SIZE :: nat where
  "READ_SIZE = 4096"

text \<open>A new array holding \<open>bs\<close>: \<^verbatim>\<open>make\<close> and \<^verbatim>\<open>copy\<close>, or \<^verbatim>\<open>[]byte(s)\<close>.\<close>

definition alloc :: "bytes \<Rightarrow> heap \<Rightarrow> heap \<times> addr" where
  "alloc bs hp = (hp @ [bs], length hp)"

definition invoke :: "OutputHandler \<Rightarrow> addr \<Rightarrow> heap \<Rightarrow> invocation list" where
  "invoke handler a hp = (case handler of None \<Rightarrow> [] | Some h \<Rightarrow> [(h, a, hp ! a)])"

text \<open>
  \<^verbatim>\<open>Read(buf)\<close> with \<open>cap\<close> the length of \<open>buf\<close>, when the stream has \<open>d\<close> and then
  \<open>err\<close> ready: at most \<open>cap\<close> bytes are stored at the front of \<open>buf\<close>; what does not fit
  stays in the stream, with the error, for the next \<^verbatim>\<open>Read\<close>.
\<close>

definition Read ::
  "addr \<Rightarrow> nat \<Rightarrow> bytes \<Rightarrow> rerr option \<Rightarrow> ev list \<Rightarrow> heap
     \<Rightarrow> (nat \<times> rerr option) \<times> ev list \<times> heap" where
  "Read buf cap d err r hp =
     (if length d \<le> cap
      then ((length d, err), r, hp[buf := d @ drop (length d) (hp ! buf)])
      else ((cap, None), Rd (drop cap d) err # r, hp[buf := take cap d @ drop cap (hp ! buf)]))"

text \<open>
  The diagnostics: \<^verbatim>\<open>fmt.Sprintf("\n[Read Error]: %v\n", err)\<close> in \<^verbatim>\<open>readOutput\<close> and
  \<^verbatim>\<open>fmt.Sprintf("[Read Error]: %v\n", err)\<close> in \<^verbatim>\<open>readFromReader\<close>.
\<close>

definition pty_diagnostic :: "rerr \<Rightarrow> bytes" where
  "pty_diagnostic e = [CHR 0x0A] @ ''[Read Error]: '' @ Error_text e @ [CHR 0x0A]"

definition pipe_diagnostic :: "rerr \<Rightarrow> bytes" where
  "pipe_diagnostic e = ''[Read Error]: '' @ Error_text e @ [CHR 0x0A]"

text \<open>The body of the loop of \<^verbatim>\<open>readOutput\<close> after the \<^verbatim>\<open>Read\<close> returned \<open>(n, err)\<close>.\<close>

definition readOutput_body ::
  "addr \<Rightarrow> ProcessManager \<Rightarrow> nat \<times> rerr option \<Rightarrow> heap \<Rightarrow> heap \<times> invocation list" where
  "readOutput_body buf p res hp =
     (case res of (n, err) \<Rightarrow>
        (let (hp2, ivs1) =
               (if n > 0
                then (case alloc (take n (hp ! buf)) hp of
                        (hp1, data) \<Rightarrow>
                          (let handler = onOutput p
                           in (hp1, if handler \<noteq> None then invoke handler data hp1 else [])))
                else (hp, []));
             (hp4, ivs2) =
               (case err of
                  None \<Rightarrow> (hp2, [])
                | Some e \<Rightarrow>
                    (let handler = onError p
                     in if e \<noteq> EOF \<and> \<not> is_EIO e \<and> handler \<noteq> None
                        then (case alloc (pty_diagnostic e) hp2 of
                                (hp3, msg) \<Rightarrow> (hp3, invoke handler msg hp3))
                        else (hp2, [])))
         in (hp4, ivs1 @ ivs2)))"

function readOutput_loop ::
  "addr \<Rightarrow> ProcessManager \<Rightarrow> ev list \<Rightarrow> heap
     \<Rightarrow> ProcessManager \<times> heap \<times> invocation list \<times> status" where
  "readOutput_loop buf p [] hp = (p, hp, [], Blocked)"
| "readOutput_loop buf p (Call c # r) hp = readOutput_loop buf (apply_call c p) r hp"
| "readOutput_loop buf p (Rd d err # r) hp =
     (case Read buf READ_SIZE d err r hp of
        (res, r', hp1) \<Rightarrow>
          (case readOutput_body buf p res hp1 of
             (hp2, ivs) \<Rightarrow>
               (if snd res \<noteq> None then (p, hp2, ivs, Terminated)
                else (case readOutput_loop buf p r' hp2 of
                        (p', hp', ivs', st) \<Rightarrow> (p', hp', ivs @ ivs', st)))))"
  by pat_completeness auto
termination
  by (relation "measure (\<lambda>(buf, p, r, hp).
        sum_list (map (\<lambda>e. case e of Rd d err \<Rightarrow> Suc (length d) | Call c \<Rightarrow> 1) r))")
     (auto simp: Read_def READ_SIZE_def split: if_splits)

text \<open>\<^verbatim>\<open>readOutput\<close>; \<open>r\<close> is the future of \<^verbatim>\<open>p.pty\<close>.\<close>

definition readOutput ::
  "ProcessManager \<Rightarrow> ev list \<Rightarrow> heap \<Rightarrow> ProcessManager \<times> heap \<times> invocation list \<times> status" where
  "readOutput p r hp =
     (case alloc (replicate READ_SIZE (CHR 0x00)) hp of
        (hp0, buf) \<Rightarrow> readOutput_loop buf p r hp0)"

text \<open>The body of the loop of \<^verbatim>\<open>readFromReader\<close> after the \<^verbatim>\<open>Read\<close> returned \<open>(n, err)\<close>.\<close>

definition readFromReader_body ::
  "addr \<Rightarrow> OutputHandler \<Rightarrow> nat \<times> rerr option \<Rightarrow> heap \<Rightarrow> heap \<times> invocation list" where
  "readFromReader_body buf handler res hp =
     (case res of (n, err) \<Rightarrow>
        (let (hp2, ivs1) =
               (if n > 0
                then (case alloc (take n (hp ! buf)) hp of
                        (hp1, data) \<Rightarrow> (hp1, if handler \<noteq> None then invoke handler data hp1 else []))
                else (hp, []));
             (hp4, ivs2) =
               (case err of
                  None \<Rightarrow> (hp2, [])
                | Some e \<Rightarrow>
                    (if e \<noteq> EOF \<and> handler \<noteq> None
                     then (case alloc (pipe_diagnostic e) hp2 of
                             (hp3, msg) \<Rightarrow> (hp3, invoke handler msg hp3))
                     else (hp2, [])))
         in (hp4, ivs1 @ ivs2)))"

function readFromReader_loop ::
  "addr \<Rightarrow> OutputHandler \<Rightarrow> ProcessManager \<Rightarrow> ev list \<Rightarrow> heap
     \<Rightarrow> ProcessManager \<times> heap \<times> invocation list \<times> status" where
  "readFromReader_loop buf handler p [] hp = (p, hp, [], Blocked)"
| "readFromReader_loop buf handler p (Call c # r) hp =
     readFromReader_loop buf handler (apply_call c p) r hp"
| "readFromReader_loop buf handler p (Rd d err # r) hp =
     (case Read buf READ_SIZE d err r hp of
        (res, r', hp1) \<Rightarrow>
          (case readFromReader_body buf handler res hp1 of
             (hp2, ivs) \<Rightarrow>
               (if snd res \<noteq> None then (p, hp2, ivs, Terminated)
                else (case readFromReader_loop buf handler p r' hp2 of
                        (p', hp', ivs', st) \<Rightarrow> (p', hp', ivs @ ivs', st)))))"
  by pat_completeness auto
termination
  by (relation "measure (\<lambda>(buf, handler, p, r, hp).
        sum_list (map (\<lambda>e. case e of Rd d err \<Rightarrow> Suc (length d) | Call c \<Rightarrow> 1) r))")
     (auto simp: Read_def READ_SIZE_def split: if_splits)

text \<open>\<^verbatim>\<open>readFromReader\<close>; \<open>r\<close> is the future of the reader passed to it.\<close>

definition readFromReader ::
  "ProcessManager \<Rightarrow> ev list \<Rightarrow> OutputHandler \<Rightarrow> heap
     \<Rightarrow> ProcessManager \<times> heap \<times> invocation list \<times> status" where
  "readFromReader p r handler hp =
     (case alloc (replicate READ_SIZE (CHR 0x00)) hp of
        (hp0, buf) \<Rightarrow> readFromReader_loop buf handler p r hp0)"

text \<open>Running a launched goroutine over the future of its reader.\<close>

fun run_goroutine ::
  "goroutine \<Rightarrow> ProcessManager \<Rightarrow> ev list \<Rightarrow> heap
     \<Rightarrow> ProcessManager \<times> heap \<times> invocation list \<times> status" where
  "run_goroutine ReadOutput p r hp = readOutput p r hp"
| "run_goroutine (ReadFromReader f handler) p r hp = readFromReader p r handler hp"

text \<open>The invocations of a run, and how it ended.\<close>

definition invocations ::
  "ProcessManager \<times> heap \<times> invocation list \<times> status \<Rightarrow> invocation list" where
  "invocations res = fst (snd (snd res))"

definition final_heap :: "ProcessManager \<times> heap \<times> invocation list \<times> status \<Rightarrow> heap" where
  "final_heap res = fst (snd res)"

definition final_status :: "ProcessManager \<times> heap \<times> invocation list \<times> status \<Rightarrow> status" where
  "final_status res = snd (snd (snd res))"

text \<open>
  The bytes a future carries until the stream ends (the first error, \<^verbatim>\<open>io.EOF\<close>
  included), and how it ends.
\<close>

fun stream_bytes :: "ev list \<Rightarrow> bytes" where
  "stream_bytes [] = []"
| "stream_bytes (Call c # r) = stream_bytes r"
| "stream_bytes (Rd d None # r) = d @ stream_bytes r"
| "stream_bytes (Rd d (Some e) # r) = d"

fun stream_end :: "ev list \<Rightarrow> rerr option" where
  "stream_end [] = None"
| "stream_end (Call c # r) = stream_end r"
| "stream_end (Rd d None # r) = stream_end r"
| "stream_end (Rd d (Some e) # r) = Some e"

section \<open>Sequences of calls\<close>

text \<open>
  A caller's program as a list of calls, each with the answers the environment gives to
  it, run from a manager and a state of the environment. \<open>OpWait r\<close> is a \<^verbatim>\<open>Wait\<close>
  that returns: the child exits and \<^verbatim>\<open>cmd.Wait()\<close> answers \<open>r\<close>.
\<close>

datatype op =
    OpStartWithPTY "(oserr + fd) \<times> (oserr + pid)"
  | OpStartWithPipes pipes_env
  | OpSetOutputHandler OutputHandler
  | OpSetErrorHandler OutputHandler
  | OpWrite "nat \<times> oserr option" bytes
  | OpStop "oserr option"
  | OpWait "oserr option"
  | OpSetWindowSize "oserr option" "16 word" "16 word"

fun do_op :: "op \<Rightarrow> ProcessManager \<times> world \<Rightarrow> ProcessManager \<times> world" where
  "do_op (OpStartWithPTY a) (p, w) = (case StartWithPTY a p w of (p', w', e) \<Rightarrow> (p', w'))"
| "do_op (OpStartWithPipes a) (p, w) = (case StartWithPipes a p w of (p', w', e) \<Rightarrow> (p', w'))"
| "do_op (OpSetOutputHandler h) (p, w) = (SetOutputHandler h p, w)"
| "do_op (OpSetErrorHandler h) (p, w) = (SetErrorHandler h p, w)"
| "do_op (OpWrite a d) (p, w) = (p, fst (Write a d p w))"
| "do_op (OpStop a) (p, w) = (case Stop a p w of (p', w', e) \<Rightarrow> (p', w'))"
| "do_op (OpWait a) (p, w) =
     (case Wait (Some a) p w of Some (p', w', e) \<Rightarrow> (p', w') | None \<Rightarrow> (p, w))"
| "do_op (OpSetWindowSize a rows cols) (p, w) = (p, fst (SetWindowSize a rows cols p w))"

fun run_ops :: "op list \<Rightarrow> ProcessManager \<times> world \<Rightarrow> ProcessManager \<times> world" where
  "run_ops [] s = s"
| "run_ops (x # xs) s = run_ops xs (do_op x s)"

fun is_Stop :: "op \<Rightarrow> bool" where
  "is_Stop (OpStop a) = True"
| "is_Stop x = False"

fun is_Start :: "op \<Rightarrow> bool" where
  "is_Start (OpStartWithPTY a) = True"
| "is_Start (OpStartWithPipes a) = True"
| "is_Start x = False"

text \<open>
  A state of the environment with the three standard descriptors open, and answers with
  which \<^verbatim>\<open>StartWithPipes\<close> succeeds; used for concrete runs.
\<close>

definition world0 :: world where
  "world0 = \<lparr>open_files = {0, 1, 2}, childIOFiles = [], parentIOPipes = [], written = [],
             kills = [], resizes = [], goroutines = []\<rparr>"

definition good_pipes :: pipes_env where
  "good_pipes = \<lparr>stdin_ans = Inr (3, 4), stdout_ans = Inr (6, 5), stderr_ans = Inr (8, 7),
                 start_ans = Inr 100\<rparr>"

text \<open>Answers with which \<^verbatim>\<open>StartWithPipes\<close> fails at its second, first and last call.\<close>

definition stdout_fails :: pipes_env where
  "stdout_fails = \<lparr>stdin_ans = Inr (3, 4), stdout_ans = Inl (OsError ''too many open files''),
                   stderr_ans = Inr (8, 7), start_ans = Inr 100\<rparr>"

definition stdin_fails :: pipes_env where
  "stdin_fails = \<lparr>stdin_ans = Inl (OsError ''too many open files''), stdout_ans = Inr (6, 5),
                  stderr_ans = Inr (8, 7), start_ans = Inr 100\<rparr>"

definition spawn_fails :: pipes_env where
  "spawn_fails = \<lparr>stdin_ans = Inr (3, 4), stdout_ans = Inr (6, 5), stderr_ans = Inr (8, 7),
                  start_ans = Inl (OsError ''executable file not found'')\<rparr>"

section \<open>Auxiliary definitions for the drain loops\<close>

text \<open>
  The store after one \<^verbatim>\<open>Read\<close> that returned the bytes \<open>c\<close> and the copy of them into
  a new array: \<open>c\<close> stands at the front of the buffer and, when \<open>c\<close> is not empty, in
  the new last cell.
\<close>

definition after_read :: "addr \<Rightarrow> bytes \<Rightarrow> heap \<Rightarrow> heap" where
  "after_read buf c hp =
     (if c = [] then hp else hp[buf := c @ drop (length c) (hp ! buf)] @ [c])"

text \<open>The invocation of a handler, if there is one, with the slice at \<open>a\<close> holding \<open>c\<close>.\<close>

definition call_with :: "OutputHandler \<Rightarrow> addr \<Rightarrow> bytes \<Rightarrow> invocation list" where
  "call_with handler a c = (case handler of None \<Rightarrow> [] | Some h \<Rightarrow> [(h, a, c)])"

definition chunk_call :: "OutputHandler \<Rightarrow> addr \<Rightarrow> bytes \<Rightarrow> invocation list" where
  "chunk_call handler a c = (if c = [] then [] else call_with handler a c)"

text \<open>The size of an event, by which the futures of a loop decrease.\<close>

definition ev_size :: "ev \<Rightarrow> nat" where
  "ev_size e = (case e of Rd d err \<Rightarrow> Suc (length d) | Call c \<Rightarrow> 1)"

text \<open>What a run delivered: the handler called and the bytes it was given, in order.\<close>

definition delivered :: "invocation list \<Rightarrow> (handler \<times> bytes) list" where
  "delivered ivs = map (\<lambda>iv. (callee iv, content iv)) ivs"

text \<open>
  The deliveries of a drain loop as the specification words them, for the handler slot
  \<open>slot\<close>: each read takes at most the fixed chunk size; if bytes were read, the current
  value of the slot is looked up (re-read each time) and called with them if it is not
  nil; a registration by the caller takes effect from the next chunk; the loop ends at
  the first read that signals an end or an error.
\<close>

function spec_deliveries ::
  "(ProcessManager \<Rightarrow> OutputHandler) \<Rightarrow> ProcessManager \<Rightarrow> ev list \<Rightarrow> (handler \<times> bytes) list" where
  "spec_deliveries slot p [] = []"
| "spec_deliveries slot p (Call c # r) = spec_deliveries slot (apply_call c p) r"
| "spec_deliveries slot p (Rd d err # r) =
     (if READ_SIZE < length d
      then (case slot p of None \<Rightarrow> [] | Some h \<Rightarrow> [(h, take READ_SIZE d)]) @
           spec_deliveries slot p (Rd (drop READ_SIZE d) err # r)
      else (if d = [] then [] else (case slot p of None \<Rightarrow> [] | Some h \<Rightarrow> [(h, d)])) @
           (if err = None then spec_deliveries slot p r else []))"
  by pat_completeness auto
termination
  by (relation "measure (\<lambda>(slot, p, r).
        sum_list (map (\<lambda>e. case e of Rd d err \<Rightarrow> Suc (length d) | Call c \<Rightarrow> 1) r))")
     (auto simp: READ_SIZE_def)

text \<open>A new manager with output handler 1 and error handler 2 registered.\<close>

definition two_handlers :: ProcessManager where
  "two_handlers = SetErrorHandler (Some 2) (SetOutputHandler (Some 1) (New [] ''cat'' []))"

section \<open>Facts about the operations\<close>

lemma Stop_effects:
  "Stop k p w =
     (p\<lparr>ctx := Canceled, running := False\<rparr>,
      w\<lparr>open_files := open_files w - set_option (pty p) - set_option (stdinPipe p),
        kills := kills w @ (case Process (cmd p) of Some n \<Rightarrow> [n] | None \<Rightarrow> [])\<rparr>,
      (case Process (cmd p) of Some n \<Rightarrow> map_option Underlying k | None \<Rightarrow> None))"
  by (cases "pty p"; cases "stdinPipe p"; cases "Process (cmd p)")
     (auto simp: Stop_def Let_def file_Close_def)

lemma StartWithPTY_running:
  "running (fst (StartWithPTY a p w)) = (running p \<or> snd (snd (StartWithPTY a p w)) = None)"
  by (auto simp: StartWithPTY_def pty_Start_def cmd_Start_def Let_def
           split: sum.splits prod.splits option.splits)

lemma StartWithPipes_running:
  "running (fst (StartWithPipes a p w)) = (running p \<or> snd (snd (StartWithPipes a p w)) = None)"
  by (auto simp: StartWithPipes_def cmd_Start_def Let_def
           split: sum.splits prod.splits option.splits)

lemma do_op_keeps_running:
  "running (fst s) \<Longrightarrow> \<not> is_Stop x \<Longrightarrow> running (fst (do_op x s))"
  by (cases x; cases s)
     (auto simp: StartWithPTY_running StartWithPipes_running SetOutputHandler_def SetErrorHandler_def
        Wait_def split: prod.splits option.splits
        dest: arg_cong [where f = "\<lambda>t. running (fst t)"])

lemma do_op_keeps_not_running:
  "\<not> running (fst s) \<Longrightarrow> \<not> is_Start x \<Longrightarrow> \<not> running (fst (do_op x s))"
  by (cases x; cases s)
     (auto simp: SetOutputHandler_def SetErrorHandler_def Stop_def Let_def
        Wait_def split: prod.splits option.splits)

lemma run_ops_keeps_running:
  "running (fst s) \<Longrightarrow> list_all (\<lambda>x. \<not> is_Stop x) ops \<Longrightarrow> running (fst (run_ops ops s))"
  by (induction ops arbitrary: s) (auto simp: do_op_keeps_running)

lemma run_ops_keeps_not_running:
  "\<not> running (fst s) \<Longrightarrow> list_all (\<lambda>x. \<not> is_Start x) ops \<Longrightarrow> \<not> running (fst (run_ops ops s))"
  by (induction ops arbitrary: s) (auto simp: do_op_keeps_not_running)

lemma run_ops_append: "run_ops (xs @ ys) s = run_ops ys (run_ops xs s)"
  by (induction xs arbitrary: s) auto

lemma Write_unbound:
  "pty p = None \<Longrightarrow> stdinPipe p = None \<Longrightarrow> Write ans data p w = (w, 0, Some NoInputAvailable)"
  by (simp add: Write_def)

section \<open>Facts about the drain loops\<close>

lemma length_after_read: "length (after_read buf c hp) = length hp + (if c = [] then 0 else 1)"
  by (simp add: after_read_def)

lemma readFromReader_body_eq:
  assumes "buf < length hp"
  shows "readFromReader_body buf handler (length c, err) (hp[buf := c @ rest]) =
     (case err of
        None \<Rightarrow> (if c = [] then hp[buf := c @ rest] else hp[buf := c @ rest] @ [c],
                 chunk_call handler (length hp) c)
      | Some e \<Rightarrow>
          (if e \<noteq> EOF \<and> handler \<noteq> None
           then ((if c = [] then hp[buf := c @ rest] else hp[buf := c @ rest] @ [c]) @ [pipe_diagnostic e],
                 chunk_call handler (length hp) c @
                 call_with handler (length hp + (if c = [] then 0 else 1)) (pipe_diagnostic e))
           else (if c = [] then hp[buf := c @ rest] else hp[buf := c @ rest] @ [c],
                 chunk_call handler (length hp) c)))"
  using assms
  by (cases handler)
     (auto simp: readFromReader_body_def alloc_def invoke_def chunk_call_def call_with_def
        nth_append split: option.splits)

lemma readOutput_body_eq:
  assumes "buf < length hp"
  shows "readOutput_body buf p (length c, err) (hp[buf := c @ rest]) =
     (case err of
        None \<Rightarrow> (if c = [] then hp[buf := c @ rest] else hp[buf := c @ rest] @ [c],
                 chunk_call (onOutput p) (length hp) c)
      | Some e \<Rightarrow>
          (if e \<noteq> EOF \<and> \<not> is_EIO e \<and> onError p \<noteq> None
           then ((if c = [] then hp[buf := c @ rest] else hp[buf := c @ rest] @ [c]) @ [pty_diagnostic e],
                 chunk_call (onOutput p) (length hp) c @
                 call_with (onError p) (length hp + (if c = [] then 0 else 1)) (pty_diagnostic e))
           else (if c = [] then hp[buf := c @ rest] else hp[buf := c @ rest] @ [c],
                 chunk_call (onOutput p) (length hp) c)))"
  using assms
  by (cases "onOutput p"; cases "onError p")
     (auto simp: readOutput_body_def alloc_def invoke_def chunk_call_def call_with_def
        nth_append Let_def split: option.splits)

lemma after_read_Nil: "after_read buf [] hp = hp"
  by (simp add: after_read_def)

lemma readFromReader_loop_small:
  assumes "buf < length hp" and "length d \<le> READ_SIZE"
  shows "readFromReader_loop buf handler p (Rd d err # r) hp =
     (case err of
        None \<Rightarrow>
          (case readFromReader_loop buf handler p r (after_read buf d hp) of
             (p', hp', ivs', st) \<Rightarrow> (p', hp', chunk_call handler (length hp) d @ ivs', st))
      | Some e \<Rightarrow>
          (if e \<noteq> EOF \<and> handler \<noteq> None
           then (p, after_read buf d hp @ [pipe_diagnostic e],
                 chunk_call handler (length hp) d @
                 call_with handler (length (after_read buf d hp)) (pipe_diagnostic e),
                 Terminated)
           else (p, after_read buf d hp, chunk_call handler (length hp) d, Terminated)))"
  using assms
  by (cases err)
     (auto simp: Read_def readFromReader_body_eq after_read_def split: prod.splits)


lemma readOutput_loop_small:
  assumes "buf < length hp" and "length d \<le> READ_SIZE"
  shows "readOutput_loop buf p (Rd d err # r) hp =
     (case err of
        None \<Rightarrow>
          (case readOutput_loop buf p r (after_read buf d hp) of
             (p', hp', ivs', st) \<Rightarrow> (p', hp', chunk_call (onOutput p) (length hp) d @ ivs', st))
      | Some e \<Rightarrow>
          (if e \<noteq> EOF \<and> \<not> is_EIO e \<and> onError p \<noteq> None
           then (p, after_read buf d hp @ [pty_diagnostic e],
                 chunk_call (onOutput p) (length hp) d @
                 call_with (onError p) (length (after_read buf d hp)) (pty_diagnostic e),
                 Terminated)
           else (p, after_read buf d hp, chunk_call (onOutput p) (length hp) d, Terminated)))"
  using assms
  by (cases err)
     (auto simp: Read_def readOutput_body_eq after_read_def split: prod.splits)

lemma readOutput_loop_big:
  assumes "\<not> length d \<le> READ_SIZE"
  shows "readOutput_loop buf p (Rd d err # r) hp =
     readOutput_loop buf p (Rd (take READ_SIZE d) None # Rd (drop READ_SIZE d) err # r) hp"
  using assms by (simp add: Read_def)

lemma drain_induct [case_names Nil Call Small Big]:
  assumes "Q []"
    and "\<And>c r. Q r \<Longrightarrow> Q (Call c # r)"
    and "\<And>d err r. length d \<le> READ_SIZE \<Longrightarrow> Q r \<Longrightarrow> Q (Rd d err # r)"
    and "\<And>d err r. \<not> length d \<le> READ_SIZE \<Longrightarrow> Q (Rd (drop READ_SIZE d) err # r)
           \<Longrightarrow> Q (Rd d err # r)"
  shows "Q r"
proof (induction "sum_list (map ev_size r)" arbitrary: r rule: less_induct)
  case less
  show ?case
  proof (cases r)
    case Nil
    then show ?thesis using assms(1) by simp
  next
    case (Cons x xs)
    show ?thesis
    proof (cases x)
      case (Call c)
      have "Q xs" by (rule less) (simp add: Cons Call ev_size_def)
      then show ?thesis using assms(2) Cons Call by simp
    next
      case (Rd d err)
      show ?thesis
      proof (cases "length d \<le> READ_SIZE")
        case True
        have "Q xs" by (rule less) (simp add: Cons Rd ev_size_def)
        then show ?thesis using assms(3) True Cons Rd by simp
      next
        case False
        have "Q (Rd (drop READ_SIZE d) err # xs)"
          using False by (intro less) (simp add: Cons Rd ev_size_def READ_SIZE_def)
        then show ?thesis using assms(4) False Cons Rd by simp
      qed
    qed
  qed
qed

declare readFromReader_loop.simps(3) [simp del]

declare readOutput_loop.simps(3) [simp del]

lemma stream_bytes_split [simp]:
  "stream_bytes (Rd (take n d) None # Rd (drop n d) err # r) = stream_bytes (Rd d err # r)"
  by (cases err) simp_all

lemma stream_end_split [simp]:
  "stream_end (Rd (take n d) None # Rd (drop n d) err # r) = stream_end (Rd d err # r)"
  by (cases err) simp_all


lemma result_parts [simp]:
  "invocations (p, hp, ivs, st) = ivs"
  "final_heap (p, hp, ivs, st) = hp"
  "final_status (p, hp, ivs, st) = st"
  by (simp_all add: invocations_def final_heap_def final_status_def)

lemma invocation_parts [simp]:
  "callee (h, a, c) = h"
  "slice_of (h, a, c) = a"
  "content (h, a, c) = c"
  by (simp_all add: callee_def slice_of_def content_def)


















lemma good_start:
  "StartWithPipes good_pipes two_handlers world0 =
     (two_handlers\<lparr>cmd := (cmd two_handlers)\<lparr>Process := Some 100\<rparr>, stdinPipe := Some 4,
                    running := True\<rparr>,
      world0\<lparr>open_files := {0, 1, 2, 4, 5, 7}, parentIOPipes := [4, 5, 7],
             goroutines := [ReadFromReader 5 (Some 1), ReadFromReader 7 (Some 2)]\<rparr>,
      None)"
  by (simp add: StartWithPipes_def good_pipes_def StdinPipe_def StdoutPipe_def StderrPipe_def
        exec_pipe_def cmd_Start_def closeDescriptors_def Let_def two_handlers_def
        SetOutputHandler_def SetErrorHandler_def New_def world0_def) auto

declare spec_deliveries.simps(3) [simp del]

lemma delivered_simps [simp]:
  "delivered [] = []"
  "delivered (xs @ ys) = delivered xs @ delivered ys"
  "delivered (chunk_call handler a c)
     = (if c = [] then [] else (case handler of None \<Rightarrow> [] | Some h \<Rightarrow> [(h, c)]))"
  by (simp_all add: delivered_def chunk_call_def call_with_def split: option.splits)

lemma readOutput_loop_follows_slot:
  assumes "buf < length hp"
    and "stream_end r = None \<or> stream_end r = Some EOF \<or> (\<exists>m. stream_end r = Some (EIO m))"
  shows "delivered (invocations (readOutput_loop buf p r hp)) = spec_deliveries onOutput p r"
  using assms
proof (induction r arbitrary: p hp rule: drain_induct)
  case Nil
  then show ?case by simp
next
  case (Call c r)
  then show ?case by simp
next
  case (Small d err r)
  have b: "buf < length (after_read buf d hp)"
    using Small.prems(1) by (simp add: length_after_read)
  show ?case
  proof (cases err)
    case None
    with Small.prems(2) Small.IH [OF b, of p] Small.hyps show ?thesis
      by (cases "readOutput_loop buf p r (after_read buf d hp)")
         (simp add: readOutput_loop_small [OF Small.prems(1) Small.hyps]
            spec_deliveries.simps(3))
  next
    case (Some e)
    with Small.prems(2) Small.hyps show ?thesis
      by (auto simp: readOutput_loop_small [OF Small.prems(1) Small.hyps]
            spec_deliveries.simps(3))
  qed
next
  case (Big d err r)
  have len: "length (take READ_SIZE d) \<le> READ_SIZE" by simp
  have ne: "take READ_SIZE d \<noteq> []" using Big.hyps by (auto simp: READ_SIZE_def)
  have b: "buf < length (after_read buf (take READ_SIZE d) hp)"
    using Big.prems(1) by (simp add: length_after_read)
  have e: "stream_end (Rd (drop READ_SIZE d) err # r) = stream_end (Rd d err # r)"
    by (cases err) simp_all
  from Big.IH [OF b, of p] Big.prems(2) e Big.hyps ne show ?case
    by (cases "readOutput_loop buf p (Rd (drop READ_SIZE d) err # r)
          (after_read buf (take READ_SIZE d) hp)")
       (simp add: readOutput_loop_big [OF Big.hyps]
          readOutput_loop_small [OF Big.prems(1) len]
          spec_deliveries.simps(3) [of _ _ d])
qed

lemma readOutput_follows_handler_slot:
  assumes "stream_end r = None \<or> stream_end r = Some EOF \<or> (\<exists>m. stream_end r = Some (EIO m))"
  shows "delivered (invocations (readOutput p r hp)) = spec_deliveries onOutput p r"
  using readOutput_loop_follows_slot [OF _ assms, of "length hp" "hp @ [replicate READ_SIZE (CHR 0x00)]" p]
  by (simp add: readOutput_def alloc_def)

section \<open>Properties of construction\<close>

text \<open>
  C8. \<^verbatim>\<open>NewWithConfig\<close> never fails (it is a total function returning a manager); the
  manager it returns is the one \<^verbatim>\<open>New\<close> returns for the same command and arguments,
  with the handlers of the configuration registered and with the environment of the
  command replaced: the inherited environment followed by the entries of \<^verbatim>\<open>cfg.Env\<close>
  when there are any, the inherited environment as it is when \<^verbatim>\<open>cfg.Env\<close> is empty
  or nil.
\<close>

theorem NewWithConfig_is_New_with_env_and_handlers:
  "NewWithConfig environ cfg =
     (New environ (Command cfg) (cfgArgs cfg))
       \<lparr>cmd := (cmd (New environ (Command cfg) (cfgArgs cfg)))
                 \<lparr>Env := (if cfgEnv cfg = [] then environ else environ @ cfgEnv cfg)\<rparr>,
        onOutput := OnOutput cfg,
        onError := OnError cfg\<rparr>"
  by (simp add: NewWithConfig_def New_def Let_def)

section \<open>Shutdown\<close>

text \<open>
  C6. \<^verbatim>\<open>Stop\<close> sets the running flag to false and cancels the context, leaving the other
  fields as they are; it closes the PTY master and the stdin pipe writer when they are
  bound; it sends a kill request exactly when the command has a process, and returns what
  that request answers (no error when there is no process). A second \<^verbatim>\<open>Stop\<close> right
  after the first is an ordinary call (the errors of its two closes are dropped like those
  of the first): it leaves the manager and the open descriptors as the first call left
  them, sends a second kill request when there is a process, and returns what that second
  request answers.
\<close>

theorem Stop_shuts_down_and_returns_kill_error:
  "Stop k p w =
     (p\<lparr>ctx := Canceled, running := False\<rparr>,
      w\<lparr>open_files := open_files w - set_option (pty p) - set_option (stdinPipe p),
        kills := kills w @ (case Process (cmd p) of Some n \<Rightarrow> [n] | None \<Rightarrow> [])\<rparr>,
      (case Process (cmd p) of Some n \<Rightarrow> map_option Underlying k | None \<Rightarrow> None))
   \<and> Stop k2 (fst (Stop k p w)) (fst (snd (Stop k p w))) =
     (fst (Stop k p w),
      (fst (snd (Stop k p w)))
        \<lparr>kills := kills w @ (case Process (cmd p) of Some n \<Rightarrow> [n, n] | None \<Rightarrow> [])\<rparr>,
      (case Process (cmd p) of Some n \<Rightarrow> map_option Underlying k2 | None \<Rightarrow> None))"
  by (cases "pty p"; cases "stdinPipe p"; cases "Process (cmd p)")
     (simp_all add: Stop_effects Diff_insert [symmetric] insert_commute)

section \<open>Status\<close>

text \<open>
  C7. \<^verbatim>\<open>Wait\<close> does not return while the child has not exited; once it has, \<^verbatim>\<open>Wait\<close>
  returns the result of \<^verbatim>\<open>cmd.Wait()\<close> and the manager is the one it was called on, field
  by field. \<^verbatim>\<open>IsRunning\<close> is false on a new manager and stays false as long as no Start
  method is called; after a successful \<^verbatim>\<open>StartWithPTY\<close> or \<^verbatim>\<open>StartWithPipes\<close> it is true
  and stays true through any calls other than \<^verbatim>\<open>Stop\<close>, a \<^verbatim>\<open>Wait\<close> that sees the child
  exit included; after \<^verbatim>\<open>Stop\<close> it is false.
\<close>

theorem Wait_and_IsRunning:
  "Wait None p w = None
   \<and> map_option fst (Wait (Some r) p w) = Some p
   \<and> map_option (\<lambda>t. snd (snd t)) (Wait (Some r) p w) =
       Some (case Process (cmd p) of
               None \<Rightarrow> Some (Underlying (OsError ''exec: not started''))
             | Some n \<Rightarrow> map_option Underlying r)
   \<and> (list_all (\<lambda>x. \<not> is_Start x) ops \<longrightarrow>
        \<not> IsRunning (fst (run_ops ops (New environ command args, w))))
   \<and> (snd (snd (StartWithPTY a p w)) = None \<and> list_all (\<lambda>x. \<not> is_Stop x) ops \<longrightarrow>
        IsRunning (fst (run_ops (OpStartWithPTY a # ops) (p, w))))
   \<and> (snd (snd (StartWithPipes env p w)) = None \<and> list_all (\<lambda>x. \<not> is_Stop x) ops \<longrightarrow>
        IsRunning (fst (run_ops (OpStartWithPipes env # ops) (p, w))))
   \<and> \<not> IsRunning (fst (run_ops (ops @ [OpStop k]) (p, w)))
   \<and> \<not> IsRunning (NewWithConfig environ' cfg)"
proof (intro conjI impI)
  show "\<not> IsRunning (NewWithConfig environ' cfg)"
    by (simp add: IsRunning_def NewWithConfig_def Let_def)
  show "Wait None p w = None" by (simp add: Wait_def)
  show "map_option fst (Wait (Some r) p w) = Some p"
    by (simp add: Wait_def split: prod.splits)
  show "map_option (\<lambda>t. snd (snd t)) (Wait (Some r) p w) =
       Some (case Process (cmd p) of
               None \<Rightarrow> Some (Underlying (OsError ''exec: not started''))
             | Some n \<Rightarrow> map_option Underlying r)"
    by (simp add: Wait_def cmd_Wait_def split: prod.splits option.splits)
  show "\<not> IsRunning (fst (run_ops ops (New environ command args, w)))"
    if "list_all (\<lambda>x. \<not> is_Start x) ops"
    using that run_ops_keeps_not_running [of "(New environ command args, w)" ops]
    by (simp add: IsRunning_def New_def)
  show "IsRunning (fst (run_ops (OpStartWithPTY a # ops) (p, w)))"
    if "snd (snd (StartWithPTY a p w)) = None \<and> list_all (\<lambda>x. \<not> is_Stop x) ops"
    using that run_ops_keeps_running [of "do_op (OpStartWithPTY a) (p, w)" ops]
      StartWithPTY_running [of a p w]
    by (cases "StartWithPTY a p w") (simp add: IsRunning_def)
  show "IsRunning (fst (run_ops (OpStartWithPipes env # ops) (p, w)))"
    if "snd (snd (StartWithPipes env p w)) = None \<and> list_all (\<lambda>x. \<not> is_Stop x) ops"
    using that run_ops_keeps_running [of "do_op (OpStartWithPipes env) (p, w)" ops]
      StartWithPipes_running [of env p w]
    by (cases "StartWithPipes env p w") (simp add: IsRunning_def)
  show "\<not> IsRunning (fst (run_ops (ops @ [OpStop k]) (p, w)))"
    by (cases "run_ops ops (p, w)") (simp add: run_ops_append IsRunning_def Stop_effects)
qed

theorem Wait_and_IsRunning_witness:
  "list_all (\<lambda>x. \<not> is_Start x) [OpSetOutputHandler (Some 1), OpWait None]
   \<and> list_all (\<lambda>x. \<not> is_Stop x) [OpSetOutputHandler (Some 1), OpWait None]
   \<and> snd (snd (StartWithPTY (Inr 3, Inr 100) (New [] ''sh'' []) world0)) = None
   \<and> snd (snd (StartWithPipes good_pipes (New [] ''sh'' []) world0)) = None
   \<and> \<not> IsRunning (fst (run_ops [OpSetOutputHandler (Some 1), OpWait None] (New [] ''sh'' [], world0)))
   \<and> IsRunning (fst (run_ops [OpStartWithPTY (Inr 3, Inr 100), OpSetOutputHandler (Some 1), OpWait None]
        (New [] ''sh'' [], world0)))
   \<and> IsRunning (fst (run_ops [OpStartWithPipes good_pipes, OpSetOutputHandler (Some 1), OpWait None]
        (New [] ''sh'' [], world0)))
   \<and> map_option fst (Wait (Some None) (fst (StartWithPTY (Inr 3, Inr 100) (New [] ''sh'' []) world0)) world0)
       = Some (fst (StartWithPTY (Inr 3, Inr 100) (New [] ''sh'' []) world0))"
proof -
  have h1: "snd (snd (StartWithPTY (Inr 3, Inr 100) (New [] ''sh'' []) world0)) = None"
    by (simp add: StartWithPTY_def pty_Start_def cmd_Start_def Let_def)
  have h2: "snd (snd (StartWithPipes good_pipes (New [] ''sh'' []) world0)) = None"
    by (simp add: StartWithPipes_def good_pipes_def StdinPipe_def StdoutPipe_def StderrPipe_def
          exec_pipe_def cmd_Start_def Let_def)
  have h3: "list_all (\<lambda>x. \<not> is_Start x) [OpSetOutputHandler (Some 1), OpWait None]"
    and h4: "list_all (\<lambda>x. \<not> is_Stop x) [OpSetOutputHandler (Some 1), OpWait None]"
    by simp_all
  note t = Wait_and_IsRunning [of "New [] ''sh'' []" world0 None
      "[OpSetOutputHandler (Some 1), OpWait None]" "[]" "''sh''" "[]" "(Inr 3, Inr 100)" good_pipes None]
  note u = Wait_and_IsRunning [of "fst (StartWithPTY (Inr 3, Inr 100) (New [] ''sh'' []) world0)" world0 None]
  from t u h1 h2 h3 h4 show ?thesis by blast
qed

section \<open>Window size\<close>

text \<open>
  C9. \<^verbatim>\<open>SetWindowSize\<close> fails with the no-PTY-session error on a new manager, on a
  manager on which \<^verbatim>\<open>StartWithPipes\<close> was called, and whenever no PTY is bound; when a
  PTY is bound it calls \<^verbatim>\<open>pty.Setsize\<close> on it with the given rows and columns and
  returns the result of that call.
\<close>

theorem SetWindowSize_without_PTY:
  "SetWindowSize ans rows cols (New environ command args) w = (w, Some NoPTYSession)
   \<and> SetWindowSize ans rows cols (fst (StartWithPipes env (New environ command args) w)) w'
       = (w', Some NoPTYSession)
   \<and> (pty p = None \<longrightarrow> SetWindowSize ans rows cols p w = (w, Some NoPTYSession))
   \<and> (pty q = Some f \<longrightarrow>
        SetWindowSize ans rows cols q w =
          (w\<lparr>resizes := resizes w @ [(f, rows, cols)]\<rparr>,
           map_option Underlying (if f \<in> open_files w then ans else Some ErrClosed)))
   \<and> SetWindowSize ans rows cols (NewWithConfig environ cfg) w = (w, Some NoPTYSession)"
proof -
  have "pty (fst (StartWithPipes env (New environ command args) w)) = None"
    by (simp add: StartWithPipes_def New_def Let_def cmd_Start_def
          split: prod.splits sum.splits option.splits)
  then show ?thesis
    by (simp add: SetWindowSize_def New_def NewWithConfig_def Let_def pty_Setsize_def)
qed

theorem SetWindowSize_without_PTY_witness:
  "pty (New [] ''sh'' []) = None
   \<and> SetWindowSize None 24 80 (New [] ''sh'' []) world0 = (world0, Some NoPTYSession)
   \<and> pty (fst (StartWithPTY (Inr 3, Inr 100) (New [] ''sh'' []) world0)) = Some 3
   \<and> SetWindowSize None 24 80 (fst (StartWithPTY (Inr 3, Inr 100) (New [] ''sh'' []) world0))
        (fst (snd (StartWithPTY (Inr 3, Inr 100) (New [] ''sh'' []) world0)))
      = ((fst (snd (StartWithPTY (Inr 3, Inr 100) (New [] ''sh'' []) world0)))\<lparr>resizes := [(3, 24, 80)]\<rparr>, None)"
proof -
  have h1: "pty (New [] ''sh'' []) = None"
    by (simp add: New_def)
  have h2: "pty (fst (StartWithPTY (Inr 3, Inr 100) (New [] ''sh'' []) world0)) = Some 3"
    by (simp add: StartWithPTY_def pty_Start_def cmd_Start_def Let_def)
  have h3: "3 \<in> open_files (fst (snd (StartWithPTY (Inr 3, Inr 100) (New [] ''sh'' []) world0)))"
    and h4: "resizes (fst (snd (StartWithPTY (Inr 3, Inr 100) (New [] ''sh'' []) world0))) = []"
    by (simp_all add: StartWithPTY_def pty_Start_def cmd_Start_def Let_def world0_def
          closeDescriptors_def)
  from SetWindowSize_without_PTY [of None 24 80 "[]" "''sh''" "[]" world0 good_pipes world0
      "New [] ''sh'' []" "fst (StartWithPTY (Inr 3, Inr 100) (New [] ''sh'' []) world0)" 3]
    SetWindowSize_without_PTY [of None 24 80 "[]" "''sh''" "[]"
      "fst (snd (StartWithPTY (Inr 3, Inr 100) (New [] ''sh'' []) world0))" good_pipes world0
      "New [] ''sh'' []" "fst (StartWithPTY (Inr 3, Inr 100) (New [] ''sh'' []) world0)" 3]
    h1 h2 h3 h4
  show ?thesis by simp
qed

section \<open>Writing\<close>

text \<open>
  C10. \<^verbatim>\<open>Writeln(s)\<close> is \<^verbatim>\<open>WriteString\<close> of \<open>s\<close> followed by the one byte 0x0A, the
  line feed, which is not the carriage return 0x0D of \<^verbatim>\<open>KeyEnter\<close>. \<^verbatim>\<open>Writeln\<close>,
  \<^verbatim>\<open>WriteString\<close> and \<^verbatim>\<open>Writef\<close> return the error of the underlying \<^verbatim>\<open>Write\<close> (and
  leave the environment as that \<^verbatim>\<open>Write\<close> leaves it); the byte count is not part of
  their result.
\<close>

theorem Writeln_appends_line_feed:
  "Writeln ans s p w = WriteString ans (s @ [CHR 0x0A]) p w
   \<and> [CHR 0x0A] \<noteq> KeyEnter
   \<and> KeyEnter = [CHR 0x0D]
   \<and> Writeln ans s p w =
       (fst (Write ans (s @ [CHR 0x0A]) p w), snd (snd (Write ans (s @ [CHR 0x0A]) p w)))
   \<and> WriteString ans s p w = (fst (Write ans s p w), snd (snd (Write ans s p w)))
   \<and> Writef sprintf ans format args p w =
       (fst (Write ans (sprintf format args) p w), snd (snd (Write ans (sprintf format args) p w)))"
  by (simp add: Writeln_def WriteString_def Writef_def KeyEnter_def split: prod.splits)

text \<open>
  C2, as the claim states it, fails. After \<^verbatim>\<open>StartWithPTY\<close> (or \<^verbatim>\<open>StartWithPipes\<close>) and
  \<^verbatim>\<open>Stop\<close>, a \<^verbatim>\<open>Write\<close> does not fail with the no-input error: \<^verbatim>\<open>Stop\<close> closes the
  sink and leaves the field bound, so \<^verbatim>\<open>Write\<close> calls the closed file and returns its
  closed-file error.
\<close>

theorem Write_after_Stop_counterexample:
  "snd (snd (Write (1, None) ''x''
      (fst (run_ops [OpStartWithPTY (Inr 3, Inr 100), OpStop None] (New [] ''sh'' [], world0)))
      (snd (run_ops [OpStartWithPTY (Inr 3, Inr 100), OpStop None] (New [] ''sh'' [], world0)))))
     = Some (Underlying ErrClosed)
   \<and> snd (snd (Write (1, None) ''x''
      (fst (run_ops [OpStartWithPTY (Inr 3, Inr 100), OpStop None] (New [] ''sh'' [], world0)))
      (snd (run_ops [OpStartWithPTY (Inr 3, Inr 100), OpStop None] (New [] ''sh'' [], world0)))))
     \<noteq> Some NoInputAvailable
   \<and> snd (snd (Write (1, None) ''x''
      (fst (run_ops [OpStartWithPipes good_pipes, OpStop None] (New [] ''sh'' [], world0)))
      (snd (run_ops [OpStartWithPipes good_pipes, OpStop None] (New [] ''sh'' [], world0)))))
     \<noteq> Some NoInputAvailable"
  by (simp add: New_def CommandContext_def world0_def good_pipes_def StartWithPTY_def
        StartWithPipes_def StdinPipe_def StdoutPipe_def StderrPipe_def exec_pipe_def
        pty_Start_def cmd_Start_def closeDescriptors_def Stop_effects Write_def file_Write_def
        Let_def)

text \<open>
  C2, amended. \<^verbatim>\<open>Write\<close> on a new manager, before any Start call, fails with the no-input
  error, and so does \<^verbatim>\<open>Write\<close> after \<^verbatim>\<open>Stop\<close> on a manager with no sink bound. After
  \<^verbatim>\<open>Stop\<close> on a manager with a sink bound, \<^verbatim>\<open>Write\<close> writes nothing and returns the
  closed-file error of the underlying write. Whenever a sink is bound, \<^verbatim>\<open>Write\<close> writes to
  the PTY master if one is bound, otherwise to the stdin pipe, and returns the result of
  the underlying write.
\<close>

theorem Write_sink_selection:
  "Write ans data (New environ command args) w = (w, 0, Some NoInputAvailable)
   \<and> (pty p0 = None \<and> stdinPipe p0 = None \<longrightarrow>
        Write ans data (fst (Stop k p0 w)) (fst (snd (Stop k p0 w)))
          = (fst (snd (Stop k p0 w)), 0, Some NoInputAvailable))
   \<and> (pty p1 \<noteq> None \<or> stdinPipe p1 \<noteq> None \<longrightarrow>
        Write ans data (fst (Stop k p1 w)) (fst (snd (Stop k p1 w)))
          = (fst (snd (Stop k p1 w)), 0, Some (Underlying ErrClosed)))
   \<and> (pty p2 = Some f \<longrightarrow>
        Write ans data p2 w =
          (fst (file_Write ans f data w), fst (snd (file_Write ans f data w)),
           map_option Underlying (snd (snd (file_Write ans f data w)))))
   \<and> (pty p3 = None \<and> stdinPipe p3 = Some g \<longrightarrow>
        Write ans data p3 w =
          (fst (file_Write ans g data w), fst (snd (file_Write ans g data w)),
           map_option Underlying (snd (snd (file_Write ans g data w)))))
   \<and> Write ans data (NewWithConfig environ cfg) w = (w, 0, Some NoInputAvailable)"
proof (intro conjI impI)
  show "Write ans data (New environ command args) w = (w, 0, Some NoInputAvailable)"
    by (simp add: Write_unbound New_def)
  show "Write ans data (NewWithConfig environ cfg) w = (w, 0, Some NoInputAvailable)"
    by (simp add: Write_unbound NewWithConfig_def Let_def)
  show "Write ans data (fst (Stop k p0 w)) (fst (snd (Stop k p0 w)))
          = (fst (snd (Stop k p0 w)), 0, Some NoInputAvailable)"
    if "pty p0 = None \<and> stdinPipe p0 = None"
    using that by (intro Write_unbound) (simp_all add: Stop_effects)
  show "Write ans data (fst (Stop k p1 w)) (fst (snd (Stop k p1 w)))
          = (fst (snd (Stop k p1 w)), 0, Some (Underlying ErrClosed))"
    if "pty p1 \<noteq> None \<or> stdinPipe p1 \<noteq> None"
    using that
    by (cases "pty p1"; cases "stdinPipe p1")
       (simp_all add: Stop_effects Write_def file_Write_def)
  show "Write ans data p2 w =
          (fst (file_Write ans f data w), fst (snd (file_Write ans f data w)),
           map_option Underlying (snd (snd (file_Write ans f data w))))"
    if "pty p2 = Some f"
    using that by (simp add: Write_def split: prod.splits)
  show "Write ans data p3 w =
          (fst (file_Write ans g data w), fst (snd (file_Write ans g data w)),
           map_option Underlying (snd (snd (file_Write ans g data w))))"
    if "pty p3 = None \<and> stdinPipe p3 = Some g"
    using that by (simp add: Write_def split: prod.splits)
qed


theorem Write_sink_selection_witness:
  "pty (New [] ''sh'' []) = None \<and> stdinPipe (New [] ''sh'' []) = None
   \<and> Write (1, None) ''x'' (fst (Stop None (New [] ''sh'' []) world0))
        (fst (snd (Stop None (New [] ''sh'' []) world0)))
      = (fst (snd (Stop None (New [] ''sh'' []) world0)), 0, Some NoInputAvailable)
   \<and> pty (fst (StartWithPTY (Inr 3, Inr 100) (New [] ''sh'' []) world0)) = Some 3
   \<and> Write (1, None) ''x''
        (fst (Stop None (fst (StartWithPTY (Inr 3, Inr 100) (New [] ''sh'' []) world0))
           (fst (snd (StartWithPTY (Inr 3, Inr 100) (New [] ''sh'' []) world0)))))
        (fst (snd (Stop None (fst (StartWithPTY (Inr 3, Inr 100) (New [] ''sh'' []) world0))
           (fst (snd (StartWithPTY (Inr 3, Inr 100) (New [] ''sh'' []) world0))))))
      = (fst (snd (Stop None (fst (StartWithPTY (Inr 3, Inr 100) (New [] ''sh'' []) world0))
           (fst (snd (StartWithPTY (Inr 3, Inr 100) (New [] ''sh'' []) world0))))),
         0, Some (Underlying ErrClosed))
   \<and> Write (1, None) ''x'' (fst (StartWithPTY (Inr 3, Inr 100) (New [] ''sh'' []) world0))
        (fst (snd (StartWithPTY (Inr 3, Inr 100) (New [] ''sh'' []) world0)))
      = ((fst (snd (StartWithPTY (Inr 3, Inr 100) (New [] ''sh'' []) world0)))\<lparr>written := [(3, ''x'')]\<rparr>,
         1, None)
   \<and> pty (fst (StartWithPipes good_pipes (New [] ''sh'' []) world0)) = None
   \<and> stdinPipe (fst (StartWithPipes good_pipes (New [] ''sh'' []) world0)) = Some 4
   \<and> Write (1, None) ''x'' (fst (StartWithPipes good_pipes (New [] ''sh'' []) world0))
        (fst (snd (StartWithPipes good_pipes (New [] ''sh'' []) world0)))
      = ((fst (snd (StartWithPipes good_pipes (New [] ''sh'' []) world0)))\<lparr>written := [(4, ''x'')]\<rparr>,
         1, None)"
proof -
  let ?p0 = "New [] ''sh'' []"
  let ?s1 = "StartWithPTY (Inr 3, Inr 100) ?p0 world0"
  let ?s2 = "StartWithPipes good_pipes ?p0 world0"
  have h0: "pty ?p0 = None \<and> stdinPipe ?p0 = None"
    by (simp add: New_def)
  have h1: "pty (fst ?s1) = Some 3"
    by (simp add: StartWithPTY_def pty_Start_def cmd_Start_def Let_def)
  have w1: "file_Write (1, None) 3 ''x'' (fst (snd ?s1))
      = ((fst (snd ?s1))\<lparr>written := [(3, ''x'')]\<rparr>, 1, None)"
    by (simp add: StartWithPTY_def pty_Start_def cmd_Start_def Let_def world0_def
          closeDescriptors_def file_Write_def)
  have h2: "pty (fst ?s2) = None \<and> stdinPipe (fst ?s2) = Some 4"
    by (simp add: StartWithPipes_def good_pipes_def StdinPipe_def StdoutPipe_def StderrPipe_def
          exec_pipe_def cmd_Start_def Let_def New_def)
  have w2: "file_Write (1, None) 4 ''x'' (fst (snd ?s2))
      = ((fst (snd ?s2))\<lparr>written := [(4, ''x'')]\<rparr>, 1, None)"
    by (simp add: StartWithPipes_def good_pipes_def StdinPipe_def StdoutPipe_def StderrPipe_def
          exec_pipe_def cmd_Start_def Let_def world0_def closeDescriptors_def file_Write_def)
  note a = Write_sink_selection [of "(1, None)" "''x''" "[]" "''sh''" "[]" world0
      ?p0 None "fst ?s1" "fst ?s1" 3 "fst ?s2" 4]
  note b = Write_sink_selection [of "(1, None)" "''x''" "[]" "''sh''" "[]" "fst (snd ?s1)"
      ?p0 None "fst ?s1" "fst ?s1" 3 "fst ?s2" 4]
  note c = Write_sink_selection [of "(1, None)" "''x''" "[]" "''sh''" "[]" "fst (snd ?s2)"
      ?p0 None "fst ?s1" "fst ?s1" 3 "fst ?s2" 4]
  from a b c h0 h1 h2 w1 w2 show ?thesis
    by simp
qed

section \<open>Failure of \<^verbatim>\<open>StartWithPipes\<close>\<close>

text \<open>
  C3, as the claim states it, fails. When the stdin pipe is created and the creation of
  the stdout pipe fails, \<^verbatim>\<open>StartWithPipes\<close> returns its transport error, but the stdin
  pipe writer is bound already: a following \<^verbatim>\<open>Write\<close> does not fail with the no-input
  error (here it succeeds), and both ends of the stdin pipe are still open.
\<close>

theorem StartWithPipes_failure_counterexample:
  "snd (snd (StartWithPipes stdout_fails (New [] ''cat'' []) world0))
     = Some (TransportError ''create stdout pipe'' (OsError ''too many open files''))
   \<and> stdinPipe (fst (StartWithPipes stdout_fails (New [] ''cat'' []) world0)) = Some 4
   \<and> snd (Write (1, None) ''x'' (fst (StartWithPipes stdout_fails (New [] ''cat'' []) world0))
        (fst (snd (StartWithPipes stdout_fails (New [] ''cat'' []) world0)))) = (1, None)
   \<and> snd (snd (Write (1, None) ''x'' (fst (StartWithPipes stdout_fails (New [] ''cat'' []) world0))
        (fst (snd (StartWithPipes stdout_fails (New [] ''cat'' []) world0))))) \<noteq> Some NoInputAvailable
   \<and> open_files (fst (snd (StartWithPipes stdout_fails (New [] ''cat'' []) world0)))
       = {0, 1, 2, 3, 4}
   \<and> open_files world0 = {0, 1, 2}"
  by (simp add: New_def CommandContext_def world0_def stdout_fails_def StartWithPipes_def
        StdinPipe_def StdoutPipe_def exec_pipe_def Write_def file_Write_def Let_def)
     auto

text \<open>
  C3, amended. When \<^verbatim>\<open>StartWithPipes\<close> fails it returns a transport error; the running
  flag, the process handle and the PTY field are as before and no goroutine is launched.
  When the call that failed is the creation of the stdin pipe, the manager and the
  environment are unchanged, so that on a new manager no sink is bound and \<^verbatim>\<open>Write\<close>
  fails with the no-input error. When the call that failed is the start of the command,
  every pipe end opened before it is closed (\<^verbatim>\<open>cmd.Start\<close> closes them).
\<close>

theorem StartWithPipes_failure:
  "(snd (snd (StartWithPipes env p w)) = Some e \<longrightarrow>
      (\<exists>what cause. e = TransportError what cause)
      \<and> running (fst (StartWithPipes env p w)) = running p
      \<and> Process (cmd (fst (StartWithPipes env p w))) = Process (cmd p)
      \<and> pty (fst (StartWithPipes env p w)) = pty p
      \<and> goroutines (fst (snd (StartWithPipes env p w))) = goroutines w)
   \<and> (stdin_ans env1 = Inl c \<longrightarrow>
        StartWithPipes env1 p w = (p, w, Some (TransportError ''create stdin pipe'' c))
        \<and> Write ans data (fst (StartWithPipes env1 (New environ command args) w)) w'
            = (w', 0, Some NoInputAvailable))
   \<and> (stdin_ans env2 = Inr (a1, b1) \<and> stdout_ans env2 = Inr (a2, b2)
        \<and> stderr_ans env2 = Inr (a3, b3) \<and> start_ans env2 = Inl c \<longrightarrow>
        snd (snd (StartWithPipes env2 p w)) = Some (TransportError ''start command'' c)
        \<and> open_files (fst (snd (StartWithPipes env2 p w)))
            = open_files w - set (childIOFiles w) - set (parentIOPipes w)
                - {a1, b1, a2, b2, a3, b3})"
proof (intro conjI impI)
  assume f: "snd (snd (StartWithPipes env p w)) = Some e"
  show "\<exists>what cause. e = TransportError what cause"
    using f by (auto simp: StartWithPipes_def StdinPipe_def StdoutPipe_def StderrPipe_def
          exec_pipe_def cmd_Start_def Let_def split: sum.splits prod.splits option.splits)
  show "running (fst (StartWithPipes env p w)) = running p"
    using f by (simp add: StartWithPipes_running)
  show "Process (cmd (fst (StartWithPipes env p w))) = Process (cmd p)"
    using f by (auto simp: StartWithPipes_def StdinPipe_def StdoutPipe_def StderrPipe_def
          exec_pipe_def cmd_Start_def Let_def split: sum.splits prod.splits option.splits)
  show "pty (fst (StartWithPipes env p w)) = pty p"
    by (auto simp: StartWithPipes_def StdinPipe_def StdoutPipe_def StderrPipe_def
          exec_pipe_def cmd_Start_def Let_def split: sum.splits prod.splits option.splits)
  show "goroutines (fst (snd (StartWithPipes env p w))) = goroutines w"
    using f by (auto simp: StartWithPipes_def StdinPipe_def StdoutPipe_def StderrPipe_def
          exec_pipe_def cmd_Start_def closeDescriptors_def Let_def
          split: sum.splits prod.splits option.splits)
next
  assume f: "stdin_ans env1 = Inl c"
  show "StartWithPipes env1 p w = (p, w, Some (TransportError ''create stdin pipe'' c))"
    using f by (simp add: StartWithPipes_def StdinPipe_def exec_pipe_def)
  show "Write ans data (fst (StartWithPipes env1 (New environ command args) w)) w'
            = (w', 0, Some NoInputAvailable)"
    using f by (simp add: StartWithPipes_def StdinPipe_def exec_pipe_def Write_unbound New_def)
next
  assume f: "stdin_ans env2 = Inr (a1, b1) \<and> stdout_ans env2 = Inr (a2, b2)
        \<and> stderr_ans env2 = Inr (a3, b3) \<and> start_ans env2 = Inl c"
  show "snd (snd (StartWithPipes env2 p w)) = Some (TransportError ''start command'' c)"
    using f by (simp add: StartWithPipes_def StdinPipe_def StdoutPipe_def StderrPipe_def
          exec_pipe_def cmd_Start_def Let_def)
  show "open_files (fst (snd (StartWithPipes env2 p w)))
            = open_files w - set (childIOFiles w) - set (parentIOPipes w)
                - {a1, b1, a2, b2, a3, b3}"
    using f by (simp add: StartWithPipes_def StdinPipe_def StdoutPipe_def StderrPipe_def
          exec_pipe_def cmd_Start_def closeDescriptors_def Let_def) auto
qed

theorem StartWithPipes_failure_witness:
  "snd (snd (StartWithPipes stdout_fails (New [] ''cat'' []) world0))
     = Some (TransportError ''create stdout pipe'' (OsError ''too many open files''))
   \<and> running (fst (StartWithPipes stdout_fails (New [] ''cat'' []) world0)) = False
   \<and> goroutines (fst (snd (StartWithPipes stdout_fails (New [] ''cat'' []) world0))) = []
   \<and> stdin_ans stdin_fails = Inl (OsError ''too many open files'')
   \<and> Write (1, None) ''x'' (fst (StartWithPipes stdin_fails (New [] ''cat'' []) world0)) world0
       = (world0, 0, Some NoInputAvailable)
   \<and> snd (snd (StartWithPipes spawn_fails (New [] ''cat'' []) world0))
       = Some (TransportError ''start command'' (OsError ''executable file not found''))
   \<and> open_files (fst (snd (StartWithPipes spawn_fails (New [] ''cat'' []) world0))) = {0, 1, 2}"
proof -
  let ?p0 = "New [] ''cat'' []"
  have h1: "snd (snd (StartWithPipes stdout_fails ?p0 world0))
     = Some (TransportError ''create stdout pipe'' (OsError ''too many open files''))"
    by (simp add: stdout_fails_def StartWithPipes_def StdinPipe_def StdoutPipe_def
          exec_pipe_def Let_def)
  have h2: "stdin_ans stdin_fails = Inl (OsError ''too many open files'')"
    by (simp add: stdin_fails_def)
  have h3: "stdin_ans spawn_fails = Inr (3, 4) \<and> stdout_ans spawn_fails = Inr (6, 5)
        \<and> stderr_ans spawn_fails = Inr (8, 7)
        \<and> start_ans spawn_fails = Inl (OsError ''executable file not found'')"
    by (simp add: spawn_fails_def)
  have h4: "running ?p0 = False \<and> goroutines world0 = [] \<and> open_files world0 = {0, 1, 2}
      \<and> childIOFiles world0 = [] \<and> parentIOPipes world0 = []"
    by (simp add: New_def world0_def)
  have h5: "{0, 1, 2} - {3, 4, 6, 5, 8, 7 :: nat} = {0, 1, 2}"
    by auto
  note t = StartWithPipes_failure [where env = stdout_fails and p = ?p0 and w = world0
      and e = "TransportError ''create stdout pipe'' (OsError ''too many open files'')"
      and ?env1.0 = stdin_fails and c = "OsError ''too many open files''"
      and ans = "(1, None)" and data = "''x''" and environ = "[]" and command = "''cat''"
      and args = "[]" and w' = world0]
  note u = StartWithPipes_failure [where p = ?p0 and w = world0
      and ?env2.0 = spawn_fails and c = "OsError ''executable file not found''"
      and ?a1.0 = 3 and ?b1.0 = 4 and ?a2.0 = 6 and ?b2.0 = 5 and ?a3.0 = 8 and ?b3.0 = 7]
  from t h1 h4 have c1: "running (fst (StartWithPipes stdout_fails ?p0 world0)) = False
      \<and> goroutines (fst (snd (StartWithPipes stdout_fails ?p0 world0))) = []"
    by simp
  from t h2 have c2: "Write (1, None) ''x'' (fst (StartWithPipes stdin_fails ?p0 world0)) world0
       = (world0, 0, Some NoInputAvailable)"
    by blast
  from u h3 h4 h5 have c3: "snd (snd (StartWithPipes spawn_fails ?p0 world0))
       = Some (TransportError ''start command'' (OsError ''executable file not found''))
     \<and> open_files (fst (snd (StartWithPipes spawn_fails ?p0 world0))) = {0, 1, 2}"
    by simp
  from h1 h2 c1 c2 c3 show ?thesis
    by blast
qed

section \<open>Drain loops: end of stream and read errors\<close>




section \<open>Drain loops: delivery of the bytes in pipe mode\<close>



section \<open>Drain loops: a handler replaced while draining\<close>

text \<open>
  C1 at a concrete run. \<^verbatim>\<open>StartWithPipes\<close> launches the stdout loop with the output
  handler of that moment (handler 1). When the caller then registers handler 3 and the
  child writes \<^verbatim>\<open>abc\<close>, the loop delivers the chunk to handler 1, although the slot
  holds handler 3 and the specification's wording gives the chunk to handler 3; the PTY
  loop, on the same events, delivers it to handler 3. When no handler was registered at
  the start, the chunk is delivered to nobody.
\<close>

theorem pipe_drain_keeps_start_handler:
  "goroutines (fst (snd (StartWithPipes good_pipes two_handlers world0)))
     = [ReadFromReader 5 (Some 1), ReadFromReader 7 (Some 2)]
   \<and> delivered (invocations (run_goroutine (ReadFromReader 5 (Some 1))
        (fst (StartWithPipes good_pipes two_handlers world0))
        [Call (CallSetOutputHandler (Some 3)), Rd ''abc'' None, Rd [] (Some EOF)] []))
     = [(1, ''abc'')]
   \<and> spec_deliveries onOutput (fst (StartWithPipes good_pipes two_handlers world0))
        [Call (CallSetOutputHandler (Some 3)), Rd ''abc'' None, Rd [] (Some EOF)]
     = [(3, ''abc'')]
   \<and> delivered (invocations (run_goroutine ReadOutput
        (fst (StartWithPTY (Inr 3, Inr 100) two_handlers world0))
        [Call (CallSetOutputHandler (Some 3)), Rd ''abc'' None, Rd [] (Some EOF)] []))
     = [(3, ''abc'')]
   \<and> goroutines (fst (snd (StartWithPipes good_pipes (New [] ''cat'' []) world0)))
     = [ReadFromReader 5 None, ReadFromReader 7 None]
   \<and> delivered (invocations (run_goroutine (ReadFromReader 5 None)
        (fst (StartWithPipes good_pipes (New [] ''cat'' []) world0))
        [Call (CallSetOutputHandler (Some 3)), Rd ''abc'' None, Rd [] (Some EOF)] []))
     = []
   \<and> spec_deliveries onOutput (fst (StartWithPipes good_pipes (New [] ''cat'' []) world0))
        [Call (CallSetOutputHandler (Some 3)), Rd ''abc'' None, Rd [] (Some EOF)]
     = [(3, ''abc'')]"
proof -
  have small: "length ''abc'' \<le> READ_SIZE" "length ([] :: bytes) \<le> READ_SIZE"
    by (simp_all add: READ_SIZE_def)
  have b: "0 < length [replicate READ_SIZE (CHR 0x00)]"
    "0 < length (after_read 0 ''abc'' [replicate READ_SIZE (CHR 0x00)])"
    by (simp_all add: length_after_read)
  have pipes: "readFromReader p [Call (CallSetOutputHandler (Some 3)), Rd ''abc'' None, Rd [] (Some EOF)]
      handler [] =
      (p\<lparr>onOutput := Some 3\<rparr>, after_read 0 ''abc'' [replicate READ_SIZE (CHR 0x00)],
       call_with handler 1 ''abc'', Terminated)" for p handler
    by (simp add: readFromReader_def alloc_def SetOutputHandler_def
          readFromReader_loop_small [OF b(1) small(1)] readFromReader_loop_small [OF b(2) small(2)]
          after_read_Nil chunk_call_def)
  have ptys: "readOutput p [Call (CallSetOutputHandler (Some 3)), Rd ''abc'' None, Rd [] (Some EOF)] [] =
      (p\<lparr>onOutput := Some 3\<rparr>, after_read 0 ''abc'' [replicate READ_SIZE (CHR 0x00)],
       [(3, 1, ''abc'')], Terminated)" for p
    by (simp add: readOutput_def alloc_def SetOutputHandler_def
          readOutput_loop_small [OF b(1) small(1)] readOutput_loop_small [OF b(2) small(2)]
          after_read_Nil chunk_call_def call_with_def)
  have fresh: "goroutines (fst (snd (StartWithPipes good_pipes (New [] ''cat'' []) world0)))
     = [ReadFromReader 5 None, ReadFromReader 7 None]"
    by (simp add: StartWithPipes_def good_pipes_def StdinPipe_def StdoutPipe_def StderrPipe_def
        exec_pipe_def cmd_Start_def closeDescriptors_def Let_def New_def world0_def)
  have spec: "spec_deliveries onOutput p
      [Call (CallSetOutputHandler (Some 3)), Rd ''abc'' None, Rd [] (Some EOF)] = [(3, ''abc'')]" for p
    by (simp add: spec_deliveries.simps(3) SetOutputHandler_def READ_SIZE_def)
  show ?thesis
    unfolding spec
    by (simp add: good_start pipes ptys fresh call_with_def delivered_def)
qed


end
